theory Spec2Isabelle
  imports Main "HOL-Library.Sublist"
begin

section \<open>Data model\<close>

text \<open>
  A quote as the remote API returns it: a JSON object with the keys \<^verbatim>\<open>_id\<close>,
  \<^verbatim>\<open>content\<close> and \<^verbatim>\<open>author\<close>. The content and the content term of a search are
  lower-cased by the code, so they are sequences of Unicode code points; identifiers
  and author names, which are only compared and passed on, are lists of 8-bit
  characters.
\<close>

type_synonym pystr = "nat list"

record quote =
  q_id :: string
  q_content :: pystr
  q_author :: string

text \<open>
  The query parameters of one \<^verbatim>\<open>GET /quotes\<close> request, as \<^verbatim>\<open>search_quotes\<close> builds
  the dictionary \<^verbatim>\<open>params\<close>: the key \<^verbatim>\<open>author\<close> is present only when an author filter
  is specified.
\<close>

record params =
  limit :: int
  maxLength :: int
  page_no :: int
  author_param :: "string option"

text \<open>
  The parsed body of a successful response: \<^verbatim>\<open>results['results']\<close> and
  \<^verbatim>\<open>results.get('totalPages', 1)\<close>, whose key may be missing. The body is taken to
  be well formed: a list of quotes under \<^verbatim>\<open>results\<close> and, when the key is there, an
  integer under \<^verbatim>\<open>totalPages\<close>.
\<close>

record page_body =
  body_results :: "quote list"
  body_totalPages :: "int option"

text \<open>
  \<^verbatim>\<open>requests.RequestException\<close>, raised by \<^verbatim>\<open>requests.get\<close> (transport) or by
  \<^verbatim>\<open>raise_for_status\<close> (a status that is not 2xx), with the text \<^verbatim>\<open>str(e)\<close>.
\<close>

datatype exn = RequestException string

text \<open>
  The remote endpoint. It answers a request given the requests it has received
  before during this search (so a remote whose answers change between calls, and a mock
  that answers by call count, are both remotes).
\<close>

type_synonym remote = "params list \<Rightarrow> params \<Rightarrow> exn + page_body"

text \<open>The values of the dictionary that \<^verbatim>\<open>search_quotes\<close> returns.\<close>

datatype pyval = PyInt int | PyList "quote list"

type_synonym result = "(string \<times> pyval) list"

text \<open>User-visible notices: \<^verbatim>\<open>st.error\<close> and \<^verbatim>\<open>st.warning\<close>.\<close>

datatype notice = Error string | Warning string

section \<open>Strings\<close>

text \<open>
  \<^verbatim>\<open>str.lower\<close> is a built-in of Python and not code of the repository: the search
  takes it as a parameter \<open>lower\<close>, and what is proved of the search holds for every
  such function. It may change the length of a string and depend on the context of a
  character, as \<^verbatim>\<open>str.lower\<close> does.
\<close>

text \<open>Python's \<^verbatim>\<open>needle in hay\<close> on strings: \<^verbatim>\<open>needle\<close> occurs in \<^verbatim>\<open>hay\<close> at some position.\<close>

fun str_in :: "'a list \<Rightarrow> 'a list \<Rightarrow> bool" where
  "str_in needle [] = (needle = [])"
| "str_in needle (c # cs) = (prefix needle (c # cs) \<or> str_in needle cs)"

section \<open>The search engine: \<^verbatim>\<open>search_quotes\<close>\<close>

text \<open>The test \<^verbatim>\<open>author and author != "All Authors"\<close>; \<^verbatim>\<open>None\<close> and the empty string are falsy.\<close>

definition author_specified :: "string option \<Rightarrow> bool" where
  "author_specified author =
    (author \<noteq> None \<and> author \<noteq> Some [] \<and> author \<noteq> Some ''All Authors'')"

definition mk_params :: "string option \<Rightarrow> int \<Rightarrow> params" where
  "mk_params author page =
    \<lparr>limit = 50, maxLength = 1000, page_no = page,
     author_param = (if author_specified author then author else None)\<rparr>"

text \<open>\<^verbatim>\<open>results.get('totalPages', 1)\<close>.\<close>

definition get_totalPages :: "page_body \<Rightarrow> int" where
  "get_totalPages results = (case body_totalPages results of None \<Rightarrow> 1 | Some t \<Rightarrow> t)"

text \<open>
  The \<^verbatim>\<open>while\<close> loop of \<^verbatim>\<open>search_quotes\<close>, from the state
  \<^verbatim>\<open>(page, total_pages, all_results)\<close> and the requests sent so far. It returns the
  exception that left the loop or the aggregated items, with the requests sent. The
  loop need not end (a remote can report a \<^verbatim>\<open>totalPages\<close> that keeps growing):
  \<open>None\<close> is the run that never returns.
\<close>

partial_function (option) fetch_pages ::
  "remote \<Rightarrow> string option \<Rightarrow> int \<Rightarrow> int \<Rightarrow> quote list \<Rightarrow> params list
    \<Rightarrow> ((exn + quote list) \<times> params list) option"
where
  "fetch_pages remote author page total_pages all_results sent =
    (if page \<le> total_pages \<and> (page \<le> 5 \<or> author \<noteq> Some ''All Authors'') then
       (case remote sent (mk_params author page) of
          Inl e \<Rightarrow> Some (Inl e, sent @ [mk_params author page])
        | Inr results \<Rightarrow>
            fetch_pages remote author (page + 1) (get_totalPages results)
              (all_results @ body_results results)
              (sent @ [mk_params author page]))
     else Some (Inr all_results, sent))"

text \<open>The client-side content filter: the list comprehension over \<^verbatim>\<open>all_results\<close>.\<close>

definition content_filter :: "(pystr \<Rightarrow> pystr) \<Rightarrow> pystr \<Rightarrow> quote list \<Rightarrow> quote list" where
  "content_filter lower query all_results =
    [quote \<leftarrow> all_results. str_in (lower query) (lower (q_content quote))]"

text \<open>The code after the loop: filtering, the cap and the returned dictionary.\<close>

definition build_result ::
  "(pystr \<Rightarrow> pystr) \<Rightarrow> pystr \<Rightarrow> string option \<Rightarrow> quote list \<Rightarrow> result"
where
  "build_result lower query author all_results =
    (if query \<noteq> [] then
       (let filtered_results = content_filter lower query all_results;
            filtered_results =
              (if author_specified author then take 10 filtered_results
               else filtered_results)
        in [(''count'', PyInt (int (length filtered_results))),
            (''results'', PyList filtered_results)])
     else
       [(''count'', PyInt (int (length all_results))),
        (''results'',
           PyList (if author_specified author then take 10 all_results else all_results))])"

text \<open>
  One run of the body of \<^verbatim>\<open>search_quotes\<close> (the memoisation of \<^verbatim>\<open>st.cache_data\<close> is
  not part of the model), given \<^verbatim>\<open>str.lower\<close>. It returns the dictionary, the requests
  sent and the notices shown.
\<close>

definition search_quotes ::
  "(pystr \<Rightarrow> pystr) \<Rightarrow> remote \<Rightarrow> pystr \<Rightarrow> string option
    \<Rightarrow> (result \<times> params list \<times> notice list) option"
where
  "search_quotes lower remote query author =
    (case fetch_pages remote author 1 1 [] [] of
       None \<Rightarrow> None
     | Some (Inl (RequestException msg), sent) \<Rightarrow>
         Some ([(''count'', PyInt 0), (''results'', PyList [])], sent,
               [Error (''Error searching quotes: '' @ msg)])
     | Some (Inr all_results, sent) \<Rightarrow>
         Some (build_result lower query author all_results, sent, []))"

section \<open>The quote store: \<^verbatim>\<open>load_saved_quotes\<close> and \<^verbatim>\<open>save_quote\<close>\<close>

text \<open>
  A cell of a pandas table. \<^verbatim>\<open>pd.read_csv\<close> infers the type of each column: a cell read
  from the file is a string, an integer, a missing value, or some other value (a float,
  a boolean).
\<close>

datatype cell = Str string | Int64 int | NaN | OtherValue

text \<open>A row of the table, with the columns \<^verbatim>\<open>quote, author, date_saved\<close>.\<close>

record saved_row =
  quote_cell :: cell
  author_cell :: cell
  date_saved :: cell

text \<open>
  A pandas table as the store uses it: its rows, or a table without the column
  \<^verbatim>\<open>quote\<close> or \<^verbatim>\<open>author\<close>, on which \<^verbatim>\<open>df['quote']\<close> or \<^verbatim>\<open>df['author']\<close> raises a
  \<^verbatim>\<open>KeyError\<close> with the given text.
\<close>

datatype frame = Table "saved_row list" | LacksColumn string

text \<open>What \<^verbatim>\<open>pd.read_csv(QUOTES_FILE)\<close> does: it raises or returns a table.\<close>

datatype read_outcome = FileNotFoundError | OtherException string | Frame frame

text \<open>
  The file system and pandas are the environment of the store, as the remote is the
  environment of the search. Its state is the list of the tables written so far, and it
  says what \<^verbatim>\<open>pd.read_csv\<close> gives in a state and whether \<^verbatim>\<open>to_csv\<close> of a table raises
  (\<open>Some msg\<close> is the text of the exception). How a table that was written is read
  back (the CSV text, the types inferred) is the environment's behaviour: no property of
  it is assumed.
\<close>

record disk =
  read_csv :: "saved_row list list \<Rightarrow> read_outcome"
  to_csv_error :: "saved_row list list \<Rightarrow> saved_row list \<Rightarrow> string option"

text \<open>
  The comparison \<^verbatim>\<open>df['quote'] == quote\<close> of a cell with a Python string: only a string
  cell can equal a string.
\<close>

fun cell_eq :: "cell \<Rightarrow> string \<Rightarrow> bool" where
  "cell_eq (Str t) s = (t = s)"
| "cell_eq (Int64 n) s = False"
| "cell_eq NaN s = False"
| "cell_eq OtherValue s = False"

text \<open>
  \<^verbatim>\<open>load_saved_quotes\<close>: the rows read, and the notices shown. Its memoisation, which
  every successful save clears, is not part of the model.
\<close>

definition load_saved_quotes :: "disk \<Rightarrow> saved_row list list \<Rightarrow> frame \<times> notice list" where
  "load_saved_quotes d written =
    (case read_csv d written of
       Frame df \<Rightarrow> (df, [])
     | FileNotFoundError \<Rightarrow> (Table [], [])
     | OtherException msg \<Rightarrow> (Table [], [Error (''Error loading quotes: '' @ msg)]))"

text \<open>
  \<^verbatim>\<open>save_quote\<close>, given the text of \<^verbatim>\<open>datetime.now()\<close>: the value returned, the tables
  written afterwards and the notices shown. Every exception inside the \<^verbatim>\<open>try\<close> block
  ends in the branch \<^verbatim>\<open>except Exception\<close>. A write that raises is taken to leave
  the file as it was.
\<close>

definition save_quote ::
  "disk \<Rightarrow> string \<Rightarrow> saved_row list list \<Rightarrow> string \<Rightarrow> string
    \<Rightarrow> bool \<times> saved_row list list \<times> notice list"
where
  "save_quote d now written quote author =
    (case load_saved_quotes d written of
       (LacksColumn msg, shown) \<Rightarrow>
         (False, written, shown @ [Error (''Error saving quote: '' @ msg)])
     | (Table rows, shown) \<Rightarrow>
         if [r \<leftarrow> rows. cell_eq (quote_cell r) quote \<and> cell_eq (author_cell r) author] = []
         then
           (let df = rows @ [\<lparr>quote_cell = Str quote, author_cell = Str author,
                               date_saved = Str now\<rparr>]
            in case to_csv_error d written df of
                 None \<Rightarrow> (True, written @ [df], shown)
               | Some msg \<Rightarrow>
                   (False, written, shown @ [Error (''Error saving quote: '' @ msg)]))
         else (False, written, shown @ [Warning ''This quote is already saved!'']))"

section \<open>Notions of the specification\<close>

text \<open>
  The answer of the remote to the request for page \<open>i\<close> of a search that has requested
  the pages \<open>1\<close> to \<open>i - 1\<close> before.
\<close>

definition response_at :: "remote \<Rightarrow> string option \<Rightarrow> int \<Rightarrow> exn + page_body" where
  "response_at remote author i =
    remote (map (mk_params author) [1..i - 1]) (mk_params author i)"

text \<open>The items of page \<open>i\<close> (none when the fetch fails).\<close>

definition items_at :: "remote \<Rightarrow> string option \<Rightarrow> int \<Rightarrow> quote list" where
  "items_at remote author i =
    (case response_at remote author i of Inl e \<Rightarrow> [] | Inr b \<Rightarrow> body_results b)"

text \<open>
  The specification's "aggregated-and-filtered" sequence, before any cap: all the
  aggregated items when the content term is empty, and those that pass the content filter
  otherwise.
\<close>

definition retained :: "(pystr \<Rightarrow> pystr) \<Rightarrow> pystr \<Rightarrow> quote list \<Rightarrow> quote list" where
  "retained lower query all_results =
    (if query = [] then all_results else content_filter lower query all_results)"

text \<open>
  The specification's words, "content contains contentTerm as a case-insensitive
  substring", on text of Basic Latin: some segment of the content equals the term letter
  by letter, where two characters are the same letter if they are equal or one is a
  capital A to Z and the other its small letter. The notion does not mention a
  lower-casing function.
\<close>

definition same_letter :: "nat \<Rightarrow> nat \<Rightarrow> bool" where
  "same_letter c d =
    (c = d \<or> (65 \<le> c \<and> c \<le> 90 \<and> d = c + 32) \<or> (65 \<le> d \<and> d \<le> 90 \<and> c = d + 32))"

definition ci_substring :: "pystr \<Rightarrow> pystr \<Rightarrow> bool" where
  "ci_substring term content =
    (\<exists>pre mid post. content = pre @ mid @ post \<and> list_all2 same_letter mid term)"

text \<open>Text of Basic Latin (ASCII), and what \<^verbatim>\<open>str.lower\<close> does on it.\<close>

definition is_ascii :: "pystr \<Rightarrow> bool" where
  "is_ascii s = list_all (\<lambda>c. c < 128) s"

definition ascii_lower :: "nat \<Rightarrow> nat" where
  "ascii_lower c = (if 65 \<le> c \<and> c \<le> 90 then c + 32 else c)"

definition lowers_ascii :: "(pystr \<Rightarrow> pystr) \<Rightarrow> bool" where
  "lowers_ascii lower = (\<forall>s. is_ascii s \<longrightarrow> lower s = map ascii_lower s)"

section \<open>Example inputs\<close>

text \<open>
  \<^verbatim>\<open>str.lower\<close> as CPython computes it, with the Unicode data of Basic Latin and of the
  Greek alphabet (the example strings have no other character): each character is
  replaced by its lower-case mapping, except the capital sigma U+03A3, which becomes the
  final sigma U+03C2 when a cased letter stands before it and none after it
  (case-ignorable characters skipped), and the small sigma U+03C3 otherwise.
\<close>

definition is_cased :: "nat \<Rightarrow> bool" where
  "is_cased c =
    ((65 \<le> c \<and> c \<le> 90) \<or> (97 \<le> c \<and> c \<le> 122) \<or>
     (913 \<le> c \<and> c \<le> 937 \<and> c \<noteq> 930) \<or> (945 \<le> c \<and> c \<le> 969))"

definition is_case_ignorable :: "nat \<Rightarrow> bool" where
  "is_case_ignorable c = (c = 39 \<or> c = 46 \<or> c = 58 \<or> c = 94 \<or> c = 96)"

definition to_lower :: "nat \<Rightarrow> nat list" where
  "to_lower c =
    (if (65 \<le> c \<and> c \<le> 90) \<or> (913 \<le> c \<and> c \<le> 937 \<and> c \<noteq> 930) then [c + 32] else [c])"

definition final_sigma :: "pystr \<Rightarrow> pystr \<Rightarrow> bool" where
  "final_sigma before after =
    (case dropWhile is_case_ignorable before of
       [] \<Rightarrow> False
     | b # bs \<Rightarrow>
         is_cased b \<and>
         (case dropWhile is_case_ignorable after of [] \<Rightarrow> True | a # as \<Rightarrow> \<not> is_cased a))"

text \<open>The characters before the current one are kept in reverse order.\<close>

fun lower_from :: "pystr \<Rightarrow> pystr \<Rightarrow> pystr" where
  "lower_from before [] = []"
| "lower_from before (c # after) =
    (if c = 931 then [if final_sigma before after then 962 else 963] else to_lower c)
    @ lower_from (c # before) after"

definition py_lower :: "pystr \<Rightarrow> pystr" where
  "py_lower s = lower_from [] s"

text \<open>A Python string literal of Basic Latin.\<close>

definition ascii :: "string \<Rightarrow> pystr" where
  "ascii s = map of_char s"

text \<open>The two quotes of the repository's test data.\<close>

definition quote_a :: quote where
  "quote_a =
    \<lparr>q_id = ''1'', q_content = ascii ''First test quote about experience'',
     q_author = ''Author 1''\<rparr>"

definition quote_b :: quote where
  "quote_b =
    \<lparr>q_id = ''2'', q_content = ascii ''Second quote by same author'',
     q_author = ''Author 1''\<rparr>"

text \<open>
  A remote with six pages of one quote each, every response reporting
  \<^verbatim>\<open>totalPages = 6\<close>; only the quote of page 6 mentions "experience".
\<close>

definition six_pages :: remote where
  "six_pages sent p =
    Inr \<lparr>body_results = (if page_no p = 6 then [quote_a] else [quote_b]),
         body_totalPages = Some 6\<rparr>"

text \<open>A remote with a single page of eleven quotes.\<close>

definition eleven_quotes :: "quote list" where
  "eleven_quotes =
    [quote_a, quote_b, quote_a, quote_b, quote_a, quote_b, quote_a, quote_b, quote_a,
     quote_b, quote_a]"

definition eleven_on_one_page :: remote where
  "eleven_on_one_page sent p =
    Inr \<lparr>body_results = eleven_quotes, body_totalPages = Some 1\<rparr>"

text \<open>A remote with a single page of the two test quotes.\<close>

definition two_on_one_page :: remote where
  "two_on_one_page sent p =
    Inr \<lparr>body_results = [quote_a, quote_b], body_totalPages = Some 1\<rparr>"

text \<open>A remote whose first page announces two pages and whose second request fails.\<close>

definition fails_on_second :: remote where
  "fails_on_second sent p =
    (if page_no p = 1
     then Inr \<lparr>body_results = [quote_a, quote_b], body_totalPages = Some 2\<rparr>
     else Inl (RequestException ''API Error''))"

text \<open>
  A quote whose content is the two Greek capitals alpha and sigma (U+0391, U+03A3), and
  a remote with a single page that holds it.
\<close>

definition greek_quote :: quote where
  "greek_quote = \<lparr>q_id = ''3'', q_content = [913, 931], q_author = ''Author 1''\<rparr>"

definition greek_on_one_page :: remote where
  "greek_on_one_page sent p =
    Inr \<lparr>body_results = [greek_quote], body_totalPages = Some 1\<rparr>"

text \<open>
  The store with no file at first, for the calls \<^verbatim>\<open>save_quote("123", "456")\<close>: the file
  can be written, and when the table is read back \<^verbatim>\<open>pd.read_csv\<close> infers the type
  \<^verbatim>\<open>int64\<close> for the columns \<^verbatim>\<open>quote\<close> and \<^verbatim>\<open>author\<close>, whose cells are all digits.
\<close>

fun as_read :: "cell \<Rightarrow> cell" where
  "as_read (Str s) = (if s = ''123'' then Int64 123 else if s = ''456'' then Int64 456 else Str s)"
| "as_read (Int64 n) = Int64 n"
| "as_read NaN = NaN"
| "as_read OtherValue = OtherValue"

definition as_read_row :: "saved_row \<Rightarrow> saved_row" where
  "as_read_row r =
    \<lparr>quote_cell = as_read (quote_cell r), author_cell = as_read (author_cell r),
     date_saved = date_saved r\<rparr>"

definition digits_disk :: disk where
  "digits_disk =
    \<lparr>read_csv = (\<lambda>written. if written = [] then FileNotFoundError
                              else Frame (Table (map as_read_row (last written)))),
     to_csv_error = (\<lambda>written df. None)\<rparr>"

text \<open>A store with no file that cannot be written.\<close>

definition read_only_disk :: disk where
  "read_only_disk =
    \<lparr>read_csv = (\<lambda>written. FileNotFoundError),
     to_csv_error = (\<lambda>written df. Some ''Permission denied'')\<rparr>"

section \<open>Lemmas\<close>

subsection \<open>Substring tests\<close>

lemma str_in_sublist: "str_in needle hay = sublist needle hay"
  by (induction hay) (simp_all add: sublist_Cons_right)

lemma content_filter_exact:
  "content_filter lower query xs = [q \<leftarrow> xs. sublist (lower query) (lower (q_content q))]"
  by (simp add: content_filter_def str_in_sublist)

lemma ascii_lower_eq_iff: "ascii_lower c = ascii_lower d \<longleftrightarrow> same_letter c d"
  by (auto simp: ascii_lower_def same_letter_def)

lemma map_ascii_lower_eq:
  "map ascii_lower xs = map ascii_lower ys \<longleftrightarrow> list_all2 same_letter xs ys"
proof (induction xs arbitrary: ys)
  case Nil
  then show ?case by auto
next
  case (Cons x xs)
  then show ?case
    by (cases ys) (simp_all add: ascii_lower_eq_iff)
qed

lemma sublist_ascii_lower:
  "sublist (map ascii_lower t) (map ascii_lower c) \<longleftrightarrow> ci_substring t c"
proof
  assume "sublist (map ascii_lower t) (map ascii_lower c)"
  then obtain ps ss where "map ascii_lower c = ps @ map ascii_lower t @ ss"
    unfolding sublist_def by blast
  then obtain pre rest where c: "c = pre @ rest"
    and r: "map ascii_lower t @ ss = map ascii_lower rest"
    unfolding map_eq_append_conv by blast
  from r obtain mid post where "rest = mid @ post" "map ascii_lower mid = map ascii_lower t"
    unfolding append_eq_map_conv by metis
  with c show "ci_substring t c"
    unfolding ci_substring_def map_ascii_lower_eq by blast
next
  assume "ci_substring t c"
  then obtain pre mid post where "c = pre @ mid @ post" "map ascii_lower mid = map ascii_lower t"
    unfolding ci_substring_def map_ascii_lower_eq by blast
  then have "map ascii_lower c = map ascii_lower pre @ map ascii_lower t @ map ascii_lower post"
    by simp
  then show "sublist (map ascii_lower t) (map ascii_lower c)"
    unfolding sublist_def by blast
qed

lemma retained_ascii:
  assumes "lowers_ascii lower" and "is_ascii query"
    and "\<forall>q \<in> set all_results. is_ascii (q_content q)"
  shows "retained lower query all_results =
           [q \<leftarrow> all_results. query = [] \<or> ci_substring query (q_content q)]"
proof (cases "query = []")
  case True
  then show ?thesis by (simp add: retained_def)
next
  case False
  have "sublist (lower query) (lower (q_content q)) \<longleftrightarrow> ci_substring query (q_content q)"
    if "q \<in> set all_results" for q
  proof -
    have "lower query = map ascii_lower query"
      using assms(1,2) by (simp add: lowers_ascii_def)
    moreover have "lower (q_content q) = map ascii_lower (q_content q)"
      using assms(1,3) that by (simp add: lowers_ascii_def)
    ultimately show ?thesis by (simp add: sublist_ascii_lower)
  qed
  then have "[q \<leftarrow> all_results. sublist (lower query) (lower (q_content q))] =
             [q \<leftarrow> all_results. ci_substring query (q_content q)]"
    by (intro filter_cong) auto
  with False show ?thesis
    by (simp add: retained_def content_filter_exact)
qed

subsection \<open>The example of \<^verbatim>\<open>str.lower\<close>\<close>

lemma lower_from_ascii: "is_ascii s \<Longrightarrow> lower_from before s = map ascii_lower s"
  by (induction s arbitrary: before) (auto simp: is_ascii_def to_lower_def ascii_lower_def)

lemma py_lower_ascii: "lowers_ascii py_lower"
  by (simp add: lowers_ascii_def py_lower_def lower_from_ascii)

lemma py_lower_greek: "py_lower [913, 931] = [945, 962]" "py_lower [931] = [963]"
  by (simp_all add: py_lower_def final_sigma_def is_cased_def is_case_ignorable_def to_lower_def)

subsection \<open>Runs of the pagination loop\<close>

text \<open>
  If the pages before \<open>n\<close> are answered and each answer keeps the loop going, and the
  answer to page \<open>n\<close> ends it (a failure, or a \<^verbatim>\<open>totalPages\<close> or a cap that is reached),
  then the loop returns after the request for page \<open>n\<close>, with the items of the pages
  in order.
\<close>

lemma fetch_pages_run:
  assumes "1 \<le> page" "page \<le> n"
    and "page \<le> total_pages \<and> (page \<le> 5 \<or> author \<noteq> Some ''All Authors'')"
    and "\<forall>i. page \<le> i \<and> i < n \<longrightarrow>
           (\<exists>b. response_at remote author i = Inr b \<and> i + 1 \<le> get_totalPages b \<and>
                (i + 1 \<le> 5 \<or> author \<noteq> Some ''All Authors''))"
    and "case response_at remote author n of Inl e \<Rightarrow> True
         | Inr b \<Rightarrow> \<not> (n + 1 \<le> get_totalPages b \<and> (n + 1 \<le> 5 \<or> author \<noteq> Some ''All Authors''))"
  shows "fetch_pages remote author page total_pages all_results
           (map (mk_params author) [1..page - 1]) =
         Some (case response_at remote author n of Inl e \<Rightarrow> Inl e
               | Inr b \<Rightarrow> Inr (all_results @ concat (map (items_at remote author) [page..n])),
               map (mk_params author) [1..n])"
  using assms
proof (induction "nat (n - page)" arbitrary: page total_pages all_results)
  case 0
  then have [simp]: "page = n" by simp
  have hist: "map (mk_params author) [1..n - 1] @ [mk_params author n] = map (mk_params author) [1..n]"
    using 0(2) by (simp add: upto_rec2)
  show ?case
    using 0(4,6)
    by (subst fetch_pages.simps)
       (auto simp: response_at_def[symmetric] items_at_def hist fetch_pages.simps[of _ _ "n + 1"] split: sum.splits)
next
  case (Suc k)
  then have lt: "page < n" by simp
  have hist: "map (mk_params author) [1..page - 1] @ [mk_params author page] = map (mk_params author) [1..page + 1 - 1]"
    using Suc(3) by (simp add: upto_rec2)
  from Suc(6) lt Suc(3) obtain b where b: "response_at remote author page = Inr b"
      "page + 1 \<le> get_totalPages b" "page + 1 \<le> 5 \<or> author \<noteq> Some ''All Authors''"
    by blast
  have IH: "fetch_pages remote author (page + 1) (get_totalPages b) (all_results @ body_results b)
           (map (mk_params author) [1..page + 1 - 1]) =
         Some (case response_at remote author n of Inl e \<Rightarrow> Inl e
               | Inr b' \<Rightarrow> Inr ((all_results @ body_results b) @ concat (map (items_at remote author) [page + 1..n])),
               map (mk_params author) [1..n])"
    using Suc(2) Suc(3) lt b(2,3) Suc(6) Suc(7)
    by (intro Suc(1)) auto
  have items: "items_at remote author page = body_results b"
    by (simp add: items_at_def b)
  have up: "[page..n] = page # [page + 1..n]"
    using lt by (simp add: upto_rec1)
  show ?case
    using Suc(5) b(1) IH
    by (subst fetch_pages.simps)
       (simp add: response_at_def[symmetric] hist items up split: sum.splits)
qed

lemma fetch_pages_from_start:
  assumes "1 \<le> n"
    and "\<forall>i. 1 \<le> i \<and> i < n \<longrightarrow>
           (\<exists>b. response_at remote author i = Inr b \<and> i + 1 \<le> get_totalPages b \<and>
                (i + 1 \<le> 5 \<or> author \<noteq> Some ''All Authors''))"
    and "case response_at remote author n of Inl e \<Rightarrow> True
         | Inr b \<Rightarrow> \<not> (n + 1 \<le> get_totalPages b \<and> (n + 1 \<le> 5 \<or> author \<noteq> Some ''All Authors''))"
  shows "fetch_pages remote author 1 1 [] [] =
         Some (case response_at remote author n of Inl e \<Rightarrow> Inl e
               | Inr b \<Rightarrow> Inr (concat (map (items_at remote author) [1..n])),
               map (mk_params author) [1..n])"
  using fetch_pages_run[of 1 n 1 author remote "[]"] assms
  by (simp cong: sum.case_cong)

lemma specified_not_all: "author_specified author \<Longrightarrow> author \<noteq> Some ''All Authors''"
  by (simp add: author_specified_def)

lemma upto_1_6: "[1..6] = [1, 2, 3, 4, 5, 6::int]"
  by (simp add: upto_rec1)

lemma upto_1_5: "[1..5] = [1, 2, 3, 4, 5::int]"
  by (simp add: upto_rec1)

lemma upto_1_2: "[1..2] = [1, 2::int]"
  by (simp add: upto_rec1)

lemma response_at_six_pages:
  "response_at six_pages author i =
    Inr \<lparr>body_results = (if i = 6 then [quote_a] else [quote_b]), body_totalPages = Some 6\<rparr>"
  by (simp add: response_at_def six_pages_def mk_params_def)

subsection \<open>The code after the loop\<close>

lemma build_result_eq:
  "build_result lower query author all_results =
    [(''count'',
      PyInt (int (if query = [] then length all_results
                  else length (if author_specified author
                               then take 10 (retained lower query all_results)
                               else retained lower query all_results)))),
     (''results'',
      PyList (if author_specified author then take 10 (retained lower query all_results)
              else retained lower query all_results))]"
  by (simp add: build_result_def retained_def Let_def)

lemma search_quotes_cases:
  assumes "search_quotes lower remote query author = Some (res, sent, shown)"
  shows "(\<exists>msg. fetch_pages remote author 1 1 [] [] = Some (Inl (RequestException msg), sent) \<and>
            res = [(''count'', PyInt 0), (''results'', PyList [])] \<and>
            shown = [Error (''Error searching quotes: '' @ msg)]) \<or>
         (\<exists>all_results. fetch_pages remote author 1 1 [] [] = Some (Inr all_results, sent) \<and>
            res = build_result lower query author all_results \<and> shown = [])"
  using assms unfolding search_quotes_def
  by (auto split: option.splits sum.splits exn.splits prod.splits)

lemma search_quotes_success:
  assumes "fetch_pages remote author 1 1 [] [] = Some (Inr all_results, sent)"
  shows "search_quotes lower remote query author =
           Some (build_result lower query author all_results, sent, [])"
  using assms by (simp add: search_quotes_def)

subsection \<open>The example inputs\<close>

lemma py_lower_on_ascii: "is_ascii s \<Longrightarrow> py_lower s = map ascii_lower s"
  using py_lower_ascii by (simp add: lowers_ascii_def)

lemma ascii_a: "is_ascii (q_content quote_a)"
  by (simp add: is_ascii_def ascii_def quote_a_def)

lemma ascii_b: "is_ascii (q_content quote_b)"
  by (simp add: is_ascii_def ascii_def quote_b_def)

lemma ascii_terms:
  "is_ascii (ascii ''QUOTE'')" "is_ascii (ascii ''experience'')" "is_ascii (ascii ''quote'')"
  by (simp_all add: is_ascii_def ascii_def)

lemma quote_in_a: "str_in (py_lower (ascii ''QUOTE'')) (py_lower (q_content quote_a))"
  by (simp add: py_lower_on_ascii ascii_a ascii_terms)
     (simp add: is_ascii_def ascii_def quote_a_def ascii_lower_def)

lemma quote_in_b: "str_in (py_lower (ascii ''QUOTE'')) (py_lower (q_content quote_b))"
  by (simp add: py_lower_on_ascii ascii_b ascii_terms)
     (simp add: is_ascii_def ascii_def quote_b_def ascii_lower_def)

lemma experience_in_a:
  "str_in (py_lower (ascii ''experience'')) (py_lower (q_content quote_a))"
  by (simp add: py_lower_on_ascii ascii_a ascii_terms)
     (simp add: is_ascii_def ascii_def quote_a_def ascii_lower_def)

lemma experience_not_in_b:
  "\<not> str_in (py_lower (ascii ''experience'')) (py_lower (q_content quote_b))"
  by (simp add: py_lower_on_ascii ascii_b ascii_terms)
     (simp add: is_ascii_def ascii_def quote_b_def ascii_lower_def)

lemma fetch_eleven:
  "fetch_pages eleven_on_one_page author 1 1 [] [] =
     Some (Inr eleven_quotes, [mk_params author 1])"
  by (simp add: fetch_pages.simps eleven_on_one_page_def get_totalPages_def)

lemma fetch_two:
  "fetch_pages two_on_one_page author 1 1 [] [] =
     Some (Inr [quote_a, quote_b], [mk_params author 1])"
  by (simp add: fetch_pages.simps two_on_one_page_def get_totalPages_def)

lemma fetch_greek:
  "fetch_pages greek_on_one_page author 1 1 [] [] =
     Some (Inr [greek_quote], [mk_params author 1])"
  by (simp add: fetch_pages.simps greek_on_one_page_def get_totalPages_def)

lemma ascii_nonempty: "ascii ''QUOTE'' \<noteq> []" "ascii ''experience'' \<noteq> []" "ascii ''quote'' \<noteq> []"
  by (simp_all add: ascii_def)

lemma retained_eleven: "retained py_lower (ascii ''QUOTE'') eleven_quotes = eleven_quotes"
  by (simp add: retained_def content_filter_def eleven_quotes_def quote_in_a quote_in_b
        ascii_nonempty)

lemma retained_two: "retained py_lower (ascii ''experience'') [quote_a, quote_b] = [quote_a]"
  by (simp add: retained_def content_filter_def experience_in_a experience_not_in_b
        ascii_nonempty)

lemma length_eleven: "length eleven_quotes = 11"
  by (simp add: eleven_quotes_def)

lemma search_eleven_with_term:
  "search_quotes py_lower eleven_on_one_page (ascii ''QUOTE'') (Some ''Author 1'') =
     Some ([(''count'', PyInt 10), (''results'', PyList (take 10 eleven_quotes))],
           [mk_params (Some ''Author 1'') 1], [])"
  by (simp add: search_quotes_def fetch_eleven build_result_eq retained_eleven
        length_eleven author_specified_def ascii_nonempty)

lemma search_two_all_authors:
  "search_quotes py_lower two_on_one_page (ascii ''experience'') (Some ''All Authors'') =
     Some ([(''count'', PyInt 1), (''results'', PyList [quote_a])],
           [mk_params (Some ''All Authors'') 1], [])"
  by (simp add: search_quotes_def fetch_two build_result_eq retained_two
        author_specified_def ascii_nonempty)

lemma response_at_fails_on_second:
  "response_at fails_on_second author i =
    (if i = 1 then Inr \<lparr>body_results = [quote_a, quote_b], body_totalPages = Some 2\<rparr>
     else Inl (RequestException ''API Error''))"
  by (simp add: response_at_def fails_on_second_def mk_params_def)

lemma items_at_six_pages:
  "items_at six_pages author i = (if i = 6 then [quote_a] else [quote_b])"
  by (simp add: items_at_def response_at_six_pages)

lemma experience_ci_in_a: "ci_substring (ascii ''experience'') (q_content quote_a)"
  using experience_in_a
  by (simp add: py_lower_on_ascii ascii_a ascii_terms str_in_sublist sublist_ascii_lower)

lemma ascii_upper_term: "is_ascii (ascii ''EXPERIENCE'')" "ascii ''EXPERIENCE'' \<noteq> []"
  by (simp_all add: is_ascii_def ascii_def)

lemma upper_experience_in_a:
  "str_in (py_lower (ascii ''EXPERIENCE'')) (py_lower (q_content quote_a))"
  by (simp add: py_lower_on_ascii ascii_a ascii_upper_term)
     (simp add: is_ascii_def ascii_def quote_a_def ascii_lower_def)

lemma upper_experience_not_in_b:
  "\<not> str_in (py_lower (ascii ''EXPERIENCE'')) (py_lower (q_content quote_b))"
  by (simp add: py_lower_on_ascii ascii_b ascii_upper_term)
     (simp add: is_ascii_def ascii_def quote_b_def ascii_lower_def)

lemma retained_two_upper:
  "retained py_lower (ascii ''EXPERIENCE'') [quote_a, quote_b] = [quote_a]"
  by (simp add: retained_def content_filter_def upper_experience_in_a
        upper_experience_not_in_b ascii_upper_term)

section \<open>Pagination policy\<close>

text \<open>
  Claim C1, as amended. For a search whose author filter names a specific author: if
  \<open>n\<close> is the first page whose fetch fails or whose response reports a \<^verbatim>\<open>totalPages\<close> of
  at most \<open>n\<close>, the search returns after requesting exactly the pages \<open>1, ..., n\<close> in
  this order, however large \<open>n\<close> is: there is no cap of 5 pages on such a search.
\<close>

theorem author_search_stops_at_total_pages:
  assumes "author_specified author" and "1 \<le> n"
    and "\<forall>i. 1 \<le> i \<and> i < n \<longrightarrow>
           (\<exists>b. response_at remote author i = Inr b \<and> i < get_totalPages b)"
    and "case response_at remote author n of Inl e \<Rightarrow> True
         | Inr b \<Rightarrow> get_totalPages b \<le> n"
  shows "\<exists>res sent shown.
           search_quotes lower remote query author = Some (res, sent, shown) \<and>
           sent = map (mk_params author) [1..n] \<and> map page_no sent = [1..n]"
proof -
  have na: "author \<noteq> Some ''All Authors''"
    using assms(1) by (rule specified_not_all)
  have cont: "\<forall>i. 1 \<le> i \<and> i < n \<longrightarrow>
           (\<exists>b. response_at remote author i = Inr b \<and> i + 1 \<le> get_totalPages b \<and>
                (i + 1 \<le> 5 \<or> author \<noteq> Some ''All Authors''))"
    using assms(3) na by fastforce
  have stop: "case response_at remote author n of Inl e \<Rightarrow> True
         | Inr b \<Rightarrow> \<not> (n + 1 \<le> get_totalPages b \<and> (n + 1 \<le> 5 \<or> author \<noteq> Some ''All Authors''))"
    using assms(4) by (auto split: sum.splits)
  have pn: "map page_no (map (mk_params author) [1..n]) = [1..n]"
    by (simp add: mk_params_def comp_def)
  note run = fetch_pages_from_start[OF assms(2) cont stop]
  show ?thesis
    unfolding search_quotes_def run using pn
    by (simp split: sum.splits exn.splits)
qed

text \<open>
  Claim C1 as stated fails: with a remote that reports six pages, a search for the author
  "Author 1" sends a request for page 6.
\<close>

theorem author_search_fetches_sixth_page:
  "search_quotes py_lower six_pages [] (Some ''Author 1'') =
    Some ([(''count'', PyInt 6),
           (''results'', PyList [quote_b, quote_b, quote_b, quote_b, quote_b, quote_a])],
          [mk_params (Some ''Author 1'') 1, mk_params (Some ''Author 1'') 2,
           mk_params (Some ''Author 1'') 3, mk_params (Some ''Author 1'') 4,
           mk_params (Some ''Author 1'') 5, mk_params (Some ''Author 1'') 6], []) \<and>
   page_no (mk_params (Some ''Author 1'') 6) = 6"
  by (simp add: search_quotes_def fetch_pages.simps six_pages_def mk_params_def
        author_specified_def build_result_def get_totalPages_def)

theorem author_search_stops_at_total_pages_witness:
  "author_specified (Some ''Author 1'') \<and>
   (\<exists>res sent shown.
      search_quotes py_lower six_pages (ascii ''quote'') (Some ''Author 1'') = Some (res, sent, shown) \<and>
      sent = map (mk_params (Some ''Author 1'')) [1, 2, 3, 4, 5, 6] \<and>
      map page_no sent = [1, 2, 3, 4, 5, 6])"
  using author_search_stops_at_total_pages
    [where author = "Some ''Author 1''" and n = 6 and remote = six_pages
       and lower = py_lower and query = "ascii ''quote''"]
  by (simp add: response_at_six_pages get_totalPages_def author_specified_def upto_1_6)

text \<open>
  Claim C2, as amended. For a search with the author filter "All Authors" and a non-empty
  content term, the search always returns, after requesting the pages \<open>1, ..., n\<close> for
  some \<open>n\<close> of at most 5: every page before \<open>n\<close> was answered with a \<^verbatim>\<open>totalPages\<close> beyond
  it, and page \<open>n\<close> is the fifth page, or its fetch fails, or its response reports a
  \<^verbatim>\<open>totalPages\<close> of at most \<open>n\<close>. When the last fetch succeeds, the returned sequence
  is exactly the items of the fetched pages whose lower-cased content contains the
  lower-cased term as a substring, in order: no such item of a fetched page is missing.
\<close>

theorem all_authors_search_capped_at_five_pages:
  assumes "query \<noteq> []"
  shows "\<exists>n res shown. 1 \<le> n \<and> n \<le> 5 \<and>
      search_quotes lower remote query (Some ''All Authors'') =
        Some (res, map (mk_params (Some ''All Authors'')) [1..n], shown) \<and>
      (\<forall>i. 1 \<le> i \<and> i < n \<longrightarrow>
         (\<exists>b. response_at remote (Some ''All Authors'') i = Inr b \<and> i < get_totalPages b)) \<and>
      (\<forall>b. response_at remote (Some ''All Authors'') n = Inr b \<longrightarrow>
         (n = 5 \<or> get_totalPages b \<le> n) \<and>
         res =
           [(''count'', PyInt (int (length
               [q \<leftarrow> concat (map (items_at remote (Some ''All Authors'')) [1..n]).
                  sublist (lower query) (lower (q_content q))]))),
            (''results'', PyList
               [q \<leftarrow> concat (map (items_at remote (Some ''All Authors'')) [1..n]).
                  sublist (lower query) (lower (q_content q))])])"
proof -
  let ?a = "Some ''All Authors''"
  define stop where "stop i \<longleftrightarrow>
    (case response_at remote ?a i of Inl e \<Rightarrow> True
     | Inr b \<Rightarrow> \<not> (i + 1 \<le> get_totalPages b \<and> (i + 1 \<le> 5 \<or> ?a \<noteq> Some ''All Authors'')))" for i
  define S where "S = {i. 1 \<le> i \<and> i \<le> 5 \<and> stop i}"
  define n where "n = Min S"
  have "S \<subseteq> {1..5}" by (auto simp: S_def)
  then have fin: "finite S" by (rule finite_subset) simp
  have five: "5 \<in> S" by (simp add: S_def stop_def split: sum.splits)
  then have ne: "S \<noteq> {}" by blast
  have nS: "n \<in> S" unfolding n_def using fin ne by (rule Min_in)
  then have n1: "1 \<le> n" and n5: "n \<le> 5" and stopn: "stop n" by (simp_all add: S_def)
  have least: "\<not> stop i" if "1 \<le> i" "i < n" for i
  proof
    assume "stop i"
    with that n5 have "i \<in> S" by (simp add: S_def)
    then have "n \<le> i" unfolding n_def using fin by simp
    with that show False by simp
  qed
  have cont: "\<forall>i. 1 \<le> i \<and> i < n \<longrightarrow>
       (\<exists>b. response_at remote ?a i = Inr b \<and> i + 1 \<le> get_totalPages b \<and>
            (i + 1 \<le> 5 \<or> ?a \<noteq> Some ''All Authors''))"
  proof (intro allI impI)
    fix i assume "1 \<le> i \<and> i < n"
    then have "\<not> stop i" using least by blast
    then show "\<exists>b. response_at remote ?a i = Inr b \<and> i + 1 \<le> get_totalPages b \<and>
            (i + 1 \<le> 5 \<or> ?a \<noteq> Some ''All Authors'')"
      by (cases "response_at remote ?a i") (simp_all add: stop_def)
  qed
  have stop': "case response_at remote ?a n of Inl e \<Rightarrow> True
     | Inr b \<Rightarrow> \<not> (n + 1 \<le> get_totalPages b \<and> (n + 1 \<le> 5 \<or> ?a \<noteq> Some ''All Authors''))"
    using stopn by (simp add: stop_def)
  note run = fetch_pages_from_start[OF n1 cont stop']
  have early: "\<forall>i. 1 \<le> i \<and> i < n \<longrightarrow>
         (\<exists>b. response_at remote ?a i = Inr b \<and> i < get_totalPages b)"
    using cont by fastforce
  have ns: "\<not> author_specified ?a" by (simp add: author_specified_def)
  show ?thesis
  proof (cases "response_at remote ?a n")
    case (Inl e)
    obtain msg where e: "e = RequestException msg" by (cases e)
    have sq: "search_quotes lower remote query ?a =
        Some ([(''count'', PyInt 0), (''results'', PyList [])], map (mk_params ?a) [1..n],
              [Error (''Error searching quotes: '' @ msg)])"
      unfolding search_quotes_def run by (simp add: Inl e)
    have last: "\<forall>b. response_at remote ?a n = Inr b \<longrightarrow>
         (n = 5 \<or> get_totalPages b \<le> n) \<and>
         [(''count'', PyInt 0), (''results'', PyList [])] =
           [(''count'', PyInt (int (length
               [q \<leftarrow> concat (map (items_at remote ?a) [1..n]).
                  sublist (lower query) (lower (q_content q))]))),
            (''results'', PyList
               [q \<leftarrow> concat (map (items_at remote ?a) [1..n]).
                  sublist (lower query) (lower (q_content q))])]"
      by (simp add: Inl)
    show ?thesis
      apply (rule exI[of _ n])
      apply (rule exI[of _ "[(''count'', PyInt 0), (''results'', PyList [])]"])
      apply (rule exI[of _ "[Error (''Error searching quotes: '' @ msg)]"])
      apply (intro conjI)
          apply (rule n1)
         apply (rule n5)
        apply (rule sq)
       apply (rule early)
      apply (rule last)
      done
  next
    case (Inr b)
    with stop' n5 have tot: "n = 5 \<or> get_totalPages b \<le> n" by auto
    let ?kept = "[q \<leftarrow> concat (map (items_at remote ?a) [1..n]).
                  sublist (lower query) (lower (q_content q))]"
    have br: "build_result lower query ?a (concat (map (items_at remote ?a) [1..n])) =
           [(''count'', PyInt (int (length ?kept))), (''results'', PyList ?kept)]"
      using assms ns by (simp add: build_result_def content_filter_exact Let_def)
    have sq: "search_quotes lower remote query ?a =
        Some ([(''count'', PyInt (int (length ?kept))), (''results'', PyList ?kept)],
              map (mk_params ?a) [1..n], [])"
      unfolding search_quotes_def run by (simp add: Inr br)
    have last: "\<forall>b. response_at remote ?a n = Inr b \<longrightarrow>
         (n = 5 \<or> get_totalPages b \<le> n) \<and>
         [(''count'', PyInt (int (length ?kept))), (''results'', PyList ?kept)] =
         [(''count'', PyInt (int (length ?kept))), (''results'', PyList ?kept)]"
      using tot by (simp add: Inr)
    show ?thesis
      apply (rule exI[of _ n])
      apply (rule exI[of _ "[(''count'', PyInt (int (length ?kept))), (''results'', PyList ?kept)]"])
      apply (rule exI[of _ "[]"])
      apply (intro conjI)
          apply (rule n1)
         apply (rule n5)
        apply (rule sq)
       apply (rule early)
      apply (rule last)
      done
  qed
qed

text \<open>
  Claim C2 as stated fails: with a remote that reports six pages, an "All Authors" search
  for "experience" stops after page 5 and returns nothing, although the quote of page 6
  contains the term.
\<close>

theorem all_authors_search_misses_sixth_page:
  "search_quotes py_lower six_pages (ascii ''experience'') (Some ''All Authors'') =
     Some ([(''count'', PyInt 0), (''results'', PyList [])],
           [mk_params (Some ''All Authors'') 1, mk_params (Some ''All Authors'') 2,
            mk_params (Some ''All Authors'') 3, mk_params (Some ''All Authors'') 4,
            mk_params (Some ''All Authors'') 5], []) \<and>
   six_pages
     [mk_params (Some ''All Authors'') 1, mk_params (Some ''All Authors'') 2,
      mk_params (Some ''All Authors'') 3, mk_params (Some ''All Authors'') 4,
      mk_params (Some ''All Authors'') 5] (mk_params (Some ''All Authors'') 6) =
     Inr \<lparr>body_results = [quote_a], body_totalPages = Some 6\<rparr> \<and>
   ci_substring (ascii ''experience'') (q_content quote_a)"
  by (simp add: search_quotes_def fetch_pages.simps six_pages_def mk_params_def
        author_specified_def build_result_def get_totalPages_def content_filter_def
        experience_in_a experience_not_in_b ascii_nonempty experience_ci_in_a)

theorem all_authors_search_capped_at_five_pages_witness:
  "ascii ''experience'' \<noteq> [] \<and>
   (\<exists>n. 1 \<le> n \<and> n \<le> 5 \<and>
      search_quotes py_lower two_on_one_page (ascii ''experience'') (Some ''All Authors'') =
        Some ([(''count'', PyInt 1), (''results'', PyList [quote_a])],
              map (mk_params (Some ''All Authors'')) [1..n], []))"
proof -
  have ne: "ascii ''experience'' \<noteq> []" by (simp add: ascii_def)
  from all_authors_search_capped_at_five_pages
    [OF ne, where lower = py_lower and remote = two_on_one_page]
  obtain n res shown where "1 \<le> n" "n \<le> 5"
    and "search_quotes py_lower two_on_one_page (ascii ''experience'') (Some ''All Authors'') =
        Some (res, map (mk_params (Some ''All Authors'')) [1..n], shown)"
    by blast
  then show ?thesis
    using ne by (auto simp: search_two_all_authors)
qed

text \<open>
  Claim C10. A search called with no author argument (\<open>None\<close>): if \<open>n\<close> is the first
  page whose response reports a \<^verbatim>\<open>totalPages\<close> of at most \<open>n\<close>, the search requests exactly
  the pages \<open>1, ..., n\<close>, however large \<open>n\<close> is (no cap of 5 pages), none of the requests
  carries an author parameter, and the returned sequence is the whole
  aggregated-and-filtered sequence, never cut to 10 items, with or without a content
  term.
\<close>

theorem search_without_author:
  assumes "1 \<le> n"
    and "\<forall>i. 1 \<le> i \<and> i < n \<longrightarrow>
           (\<exists>b. response_at remote None i = Inr b \<and> i < get_totalPages b)"
    and "response_at remote None n = Inr b" and "get_totalPages b \<le> n"
  shows "search_quotes lower remote query None =
           Some ([(''count'',
                   PyInt (int (length
                     (retained lower query (concat (map (items_at remote None) [1..n])))))),
                  (''results'',
                   PyList (retained lower query (concat (map (items_at remote None) [1..n]))))],
                 map (\<lambda>i. \<lparr>limit = 50, maxLength = 1000, page_no = i, author_param = None\<rparr>)
                   [1..n],
                 [])"
proof -
  have cont: "\<forall>i. 1 \<le> i \<and> i < n \<longrightarrow>
           (\<exists>b. response_at remote None i = Inr b \<and> i + 1 \<le> get_totalPages b \<and>
                (i + 1 \<le> 5 \<or> None \<noteq> Some ''All Authors''))"
    using assms(2) by fastforce
  have stop: "case response_at remote None n of Inl e \<Rightarrow> True
         | Inr b \<Rightarrow> \<not> (n + 1 \<le> get_totalPages b \<and> (n + 1 \<le> 5 \<or> None \<noteq> Some ''All Authors''))"
    using assms(4) by (simp add: assms(3))
  note run = fetch_pages_from_start[OF assms(1) cont stop]
  have ns: "\<not> author_specified None" by (simp add: author_specified_def)
  have mk: "mk_params None = (\<lambda>i. \<lparr>limit = 50, maxLength = 1000, page_no = i, author_param = None\<rparr>)"
    by (rule ext) (simp add: mk_params_def ns)
  show ?thesis
    unfolding search_quotes_def run
    by (simp add: assms(3) build_result_eq ns mk retained_def)
qed

theorem search_without_author_witness:
  "search_quotes py_lower six_pages [] None =
     Some ([(''count'', PyInt 6),
            (''results'', PyList [quote_b, quote_b, quote_b, quote_b, quote_b, quote_a])],
           map (\<lambda>i. \<lparr>limit = 50, maxLength = 1000, page_no = i, author_param = None\<rparr>)
             [1, 2, 3, 4, 5, 6],
           [])"
  using search_without_author
    [where n = 6 and remote = six_pages and lower = py_lower and query = "[]"
       and b = "\<lparr>body_results = [quote_a], body_totalPages = Some 6\<rparr>"]
  by (simp add: response_at_six_pages items_at_six_pages get_totalPages_def upto_1_6
        retained_def)

section \<open>Failure of a page fetch\<close>

text \<open>
  Claim C5, as amended. If the fetch of a page \<open>n\<close> fails, after the pages before it
  were fetched and each answer kept the loop going, the search returns exactly the
  dictionary with \<^verbatim>\<open>count\<close> 0 and an empty \<^verbatim>\<open>results\<close>, which has no truncated entry; the
  items of the pages fetched before do not appear in it.
\<close>

theorem failed_fetch_aborts_search:
  assumes "1 \<le> n"
    and "\<forall>i. 1 \<le> i \<and> i < n \<longrightarrow>
           (\<exists>b. response_at remote author i = Inr b \<and> i < get_totalPages b \<and>
                (i < 5 \<or> author \<noteq> Some ''All Authors''))"
    and "response_at remote author n = Inl (RequestException msg)"
  shows "search_quotes lower remote query author =
           Some ([(''count'', PyInt 0), (''results'', PyList [])],
                 map (mk_params author) [1..n],
                 [Error (''Error searching quotes: '' @ msg)])"
proof -
  have cont: "\<forall>i. 1 \<le> i \<and> i < n \<longrightarrow>
           (\<exists>b. response_at remote author i = Inr b \<and> i + 1 \<le> get_totalPages b \<and>
                (i + 1 \<le> 5 \<or> author \<noteq> Some ''All Authors''))"
    using assms(2) by fastforce
  have stop: "case response_at remote author n of Inl e \<Rightarrow> True
         | Inr b \<Rightarrow> \<not> (n + 1 \<le> get_totalPages b \<and> (n + 1 \<le> 5 \<or> author \<noteq> Some ''All Authors''))"
    by (simp add: assms(3))
  note run = fetch_pages_from_start[OF assms(1) cont stop]
  show ?thesis
    unfolding search_quotes_def run by (simp add: assms(3))
qed

text \<open>
  Claim C5 as stated fails in one respect: the dictionary returned after a failed fetch
  has the keys \<^verbatim>\<open>count\<close> and \<^verbatim>\<open>results\<close> only, and no \<^verbatim>\<open>truncated\<close> entry.
\<close>

theorem failed_search_has_no_truncated_flag:
  "search_quotes py_lower fails_on_second (ascii ''quote'') (Some ''Author 1'') =
     Some ([(''count'', PyInt 0), (''results'', PyList [])],
           [mk_params (Some ''Author 1'') 1, mk_params (Some ''Author 1'') 2],
           [Error ''Error searching quotes: API Error'']) \<and>
   map_of [(''count'', PyInt 0), (''results'', PyList [])] ''truncated'' = None"
  by (simp add: search_quotes_def fetch_pages.simps fails_on_second_def mk_params_def
        author_specified_def get_totalPages_def)

theorem failed_fetch_aborts_search_witness:
  "response_at fails_on_second (Some ''Author 1'') 2 = Inl (RequestException ''API Error'') \<and>
   search_quotes py_lower fails_on_second (ascii ''quote'') (Some ''Author 1'') =
     Some ([(''count'', PyInt 0), (''results'', PyList [])],
           [mk_params (Some ''Author 1'') 1, mk_params (Some ''Author 1'') 2],
           [Error ''Error searching quotes: API Error''])"
  using failed_fetch_aborts_search
    [where n = 2 and remote = fails_on_second and author = "Some ''Author 1''"
       and msg = "''API Error''" and lower = py_lower and query = "ascii ''quote''"]
  by (simp add: response_at_fails_on_second get_totalPages_def upto_1_2)

section \<open>Result bounding\<close>

text \<open>
  Claim C3, as amended. No result of a search carries a truncated flag: its keys are
  \<^verbatim>\<open>count\<close> and \<^verbatim>\<open>results\<close> only. When the loop ends without a failure, the returned
  sequence is shorter than the aggregated-and-filtered sequence before the cap if and
  only if the author filter is a specific author and that sequence has more than 10
  items.
\<close>

theorem truncation_without_flag:
  assumes "search_quotes lower remote query author = Some (res, sent, shown)"
  shows "map fst res = [''count'', ''results''] \<and>
     (\<forall>all_results. fetch_pages remote author 1 1 [] [] = Some (Inr all_results, sent) \<longrightarrow>
        (\<exists>rs. map_of res ''results'' = Some (PyList rs) \<and>
           (length rs < length (retained lower query all_results)
              \<longleftrightarrow> author_specified author \<and> 10 < length (retained lower query all_results))))"
  using search_quotes_cases[OF assms]
  by (auto simp: build_result_eq)

text \<open>
  Claim C3 as stated fails: a search for a specific author whose aggregated-and-filtered
  sequence has 11 items returns 10 of them in a dictionary with no \<^verbatim>\<open>truncated\<close> entry.
\<close>

theorem capped_result_has_no_truncated_flag:
  "search_quotes py_lower eleven_on_one_page (ascii ''QUOTE'') (Some ''Author 1'') =
     Some ([(''count'', PyInt 10), (''results'', PyList (take 10 eleven_quotes))],
           [mk_params (Some ''Author 1'') 1], []) \<and>
   map_of [(''count'', PyInt 10), (''results'', PyList (take 10 eleven_quotes))] ''truncated''
     = None \<and>
   author_specified (Some ''Author 1'') \<and>
   length (retained py_lower (ascii ''QUOTE'') eleven_quotes) = 11"
  by (simp add: search_eleven_with_term retained_eleven length_eleven author_specified_def)

theorem truncation_without_flag_witness:
  "search_quotes py_lower eleven_on_one_page (ascii ''QUOTE'') (Some ''Author 1'') =
     Some ([(''count'', PyInt 10), (''results'', PyList (take 10 eleven_quotes))],
           [mk_params (Some ''Author 1'') 1], []) \<and>
   map fst [(''count'', PyInt 10), (''results'', PyList (take 10 eleven_quotes))] =
     [''count'', ''results''] \<and>
   (\<exists>rs. map_of [(''count'', PyInt 10), (''results'', PyList (take 10 eleven_quotes))]
             ''results'' = Some (PyList rs) \<and>
      length rs < length (retained py_lower (ascii ''QUOTE'') eleven_quotes))"
  using truncation_without_flag[OF search_eleven_with_term] fetch_eleven[of "Some ''Author 1''"]
  by (simp add: search_eleven_with_term retained_eleven length_eleven)

text \<open>
  Claim C4 is not what the code does when the content term is empty: for the author
  "Author 1" and a page of eleven quotes, \<^verbatim>\<open>count\<close> is 11 (the length of the aggregated
  sequence) while the returned sequence has 10 items.
\<close>

theorem count_is_not_length_of_capped_results:
  "search_quotes py_lower eleven_on_one_page [] (Some ''Author 1'') =
     Some ([(''count'', PyInt 11), (''results'', PyList (take 10 eleven_quotes))],
           [mk_params (Some ''Author 1'') 1], []) \<and>
   length (take 10 eleven_quotes) = 10"
  by (simp add: search_quotes_def fetch_eleven build_result_eq retained_def
        length_eleven author_specified_def)

text \<open>
  Claim C6. For a search whose author filter is a specific author, with or without a
  content term, the returned sequence has at most 10 items; when the loop ends without
  a failure it is the first 10 items of the aggregated-and-filtered sequence.
\<close>

theorem author_search_returns_first_ten:
  assumes "author_specified author"
    and "search_quotes lower remote query author = Some (res, sent, shown)"
  shows "\<exists>c rs. res = [(''count'', PyInt c), (''results'', PyList rs)] \<and> length rs \<le> 10 \<and>
     (\<forall>all_results. fetch_pages remote author 1 1 [] [] = Some (Inr all_results, sent) \<longrightarrow>
        rs = take 10 (retained lower query all_results))"
  using search_quotes_cases[OF assms(2)] assms(1)
  by (auto simp: build_result_eq)

theorem author_search_returns_first_ten_witness:
  "author_specified (Some ''Author 1'') \<and>
   search_quotes py_lower eleven_on_one_page (ascii ''QUOTE'') (Some ''Author 1'') =
     Some ([(''count'', PyInt 10), (''results'', PyList (take 10 eleven_quotes))],
           [mk_params (Some ''Author 1'') 1], []) \<and>
   length (take 10 eleven_quotes) \<le> 10 \<and>
   take 10 eleven_quotes = take 10 (retained py_lower (ascii ''QUOTE'') eleven_quotes)"
  using author_search_returns_first_ten[OF _ search_eleven_with_term]
  by (simp add: search_eleven_with_term retained_eleven author_specified_def)

section \<open>Content filtering\<close>

text \<open>
  Claim C7, as amended. When the loop ends with the aggregated sequence \<open>all_results\<close>,
  the sequence kept by the content filter is: all of \<open>all_results\<close> when the content term
  is empty, and otherwise exactly the items for which the lower-cased term (by
  \<^verbatim>\<open>str.lower\<close>) is a substring of the lower-cased content, in their order; the search
  returns this sequence (its first 10 items for a specific author). When the term and the
  contents are text of Basic Latin, on which \<^verbatim>\<open>str.lower\<close> maps A to Z to a to z, these
  are exactly the items whose content contains the term as a case-insensitive substring.
\<close>

theorem content_filter_by_lowered_substring:
  assumes "fetch_pages remote author 1 1 [] [] = Some (Inr all_results, sent)"
  shows "retained lower query all_results =
           (if query = [] then all_results
            else [q \<leftarrow> all_results. sublist (lower query) (lower (q_content q))]) \<and>
         (\<exists>c. search_quotes lower remote query author =
            Some ([(''count'', PyInt c),
                   (''results'',
                    PyList (if author_specified author
                            then take 10 (retained lower query all_results)
                            else retained lower query all_results))], sent, [])) \<and>
         (lowers_ascii lower \<and> is_ascii query \<and>
          (\<forall>q \<in> set all_results. is_ascii (q_content q)) \<longrightarrow>
            retained lower query all_results =
              [q \<leftarrow> all_results. query = [] \<or> ci_substring query (q_content q)])"
  using search_quotes_success[OF assms, of lower query] retained_ascii[of lower query all_results]
  by (simp add: build_result_eq retained_def content_filter_exact)

text \<open>
  Claim C7 as stated fails: the content of two Greek capitals alpha and sigma contains
  the term capital sigma, yet a search for this term drops the quote, because
  \<^verbatim>\<open>str.lower\<close> gives the final sigma U+03C2 in the content and the small sigma U+03C3
  for the term alone.
\<close>

theorem content_filter_drops_final_sigma:
  "search_quotes py_lower greek_on_one_page [931] (Some ''All Authors'') =
     Some ([(''count'', PyInt 0), (''results'', PyList [])],
           [mk_params (Some ''All Authors'') 1], []) \<and>
   q_content greek_quote = [913] @ [931] @ [] \<and>
   ci_substring [931] (q_content greek_quote) \<and>
   py_lower (q_content greek_quote) = [945, 962] \<and>
   py_lower [931] = [963]"
proof -
  have "ci_substring [931] ([913] @ [931] @ [])"
    unfolding ci_substring_def by (intro exI conjI) (rule refl, simp add: same_letter_def)
  then show ?thesis
    by (simp add: search_quotes_def fetch_greek build_result_def content_filter_def
          greek_quote_def py_lower_greek author_specified_def)
qed

theorem content_filter_by_lowered_substring_witness:
  "fetch_pages two_on_one_page (Some ''All Authors'') 1 1 [] [] =
     Some (Inr [quote_a, quote_b], [mk_params (Some ''All Authors'') 1]) \<and>
   lowers_ascii py_lower \<and>
   retained py_lower (ascii ''EXPERIENCE'') [quote_a, quote_b] = [quote_a] \<and>
   ci_substring (ascii ''EXPERIENCE'') (q_content quote_a) \<and>
   \<not> ci_substring (ascii ''EXPERIENCE'') (q_content quote_b) \<and>
   search_quotes py_lower two_on_one_page (ascii ''EXPERIENCE'') (Some ''All Authors'') =
     Some ([(''count'', PyInt 1), (''results'', PyList [quote_a])],
           [mk_params (Some ''All Authors'') 1], [])"
proof -
  have ci_a: "ci_substring (ascii ''EXPERIENCE'') (q_content quote_a)"
    using upper_experience_in_a
    by (simp add: py_lower_on_ascii ascii_a ascii_upper_term str_in_sublist
          sublist_ascii_lower)
  have ci_b: "\<not> ci_substring (ascii ''EXPERIENCE'') (q_content quote_b)"
    using upper_experience_not_in_b
    by (simp add: py_lower_on_ascii ascii_b ascii_upper_term str_in_sublist
          sublist_ascii_lower)
  have hyp: "lowers_ascii py_lower \<and> is_ascii (ascii ''EXPERIENCE'') \<and>
      (\<forall>q \<in> set [quote_a, quote_b]. is_ascii (q_content q))"
    by (simp add: py_lower_ascii ascii_upper_term ascii_a ascii_b)
  note kept = content_filter_by_lowered_substring
      [OF fetch_two[of "Some ''All Authors''"], where lower = py_lower
         and query = "ascii ''EXPERIENCE''", THEN conjunct2, THEN conjunct2, THEN mp, OF hyp]
  have r: "retained py_lower (ascii ''EXPERIENCE'') [quote_a, quote_b] = [quote_a]"
    unfolding kept by (simp add: ci_a ci_b ascii_upper_term)
  have s: "search_quotes py_lower two_on_one_page (ascii ''EXPERIENCE'')
             (Some ''All Authors'') =
           Some ([(''count'', PyInt 1), (''results'', PyList [quote_a])],
                 [mk_params (Some ''All Authors'') 1], [])"
    by (simp add: search_quotes_def fetch_two build_result_eq r author_specified_def
          ascii_upper_term)
  show ?thesis
    by (intro conjI) (rule fetch_two py_lower_ascii r ci_a ci_b s)+
qed

section \<open>The quote store\<close>

text \<open>
  Claim C8 is not what the code does for the pair ("123", "456") on a store with no
  file: the first call returns true and writes one row; \<^verbatim>\<open>pd.read_csv\<close> then reads the
  cells back as integers, which equal no string, so the second call does not find the
  pair, returns true as well and writes a second row for it.
\<close>

theorem second_save_of_digits_is_not_refused:
  "save_quote digits_disk ''2024-01-01 10:00:00'' [] ''123'' ''456'' =
     (True,
      [[\<lparr>quote_cell = Str ''123'', author_cell = Str ''456'',
         date_saved = Str ''2024-01-01 10:00:00''\<rparr>]], []) \<and>
   read_csv digits_disk
      [[\<lparr>quote_cell = Str ''123'', author_cell = Str ''456'',
         date_saved = Str ''2024-01-01 10:00:00''\<rparr>]] =
     Frame (Table [\<lparr>quote_cell = Int64 123, author_cell = Int64 456,
                     date_saved = Str ''2024-01-01 10:00:00''\<rparr>]) \<and>
   save_quote digits_disk ''2024-01-01 10:00:05''
      [[\<lparr>quote_cell = Str ''123'', author_cell = Str ''456'',
         date_saved = Str ''2024-01-01 10:00:00''\<rparr>]] ''123'' ''456'' =
     (True,
      [[\<lparr>quote_cell = Str ''123'', author_cell = Str ''456'',
         date_saved = Str ''2024-01-01 10:00:00''\<rparr>],
       [\<lparr>quote_cell = Int64 123, author_cell = Int64 456,
         date_saved = Str ''2024-01-01 10:00:00''\<rparr>,
        \<lparr>quote_cell = Str ''123'', author_cell = Str ''456'',
         date_saved = Str ''2024-01-01 10:00:05''\<rparr>]], [])"
  by (simp add: save_quote_def load_saved_quotes_def digits_disk_def as_read_row_def)

text \<open>
  Claim C9, as amended. \<^verbatim>\<open>save_quote\<close> returns false exactly when its duplicate test
  finds the pair among the rows read from the file, when the table read lacks a column,
  or when the file cannot be written; otherwise it returns true and writes the rows read
  with the new row appended. The result does not tell a duplicate from a failure; only
  the notice does: a warning for the duplicate, an error for a failure.
\<close>

theorem save_quote_false_means_found_or_failure:
  assumes "save_quote d now written quote author = (ok, written', shown)"
  shows
    "(case fst (load_saved_quotes d written) of
        LacksColumn msg \<Rightarrow>
          \<not> ok \<and> written' = written \<and>
          shown = snd (load_saved_quotes d written) @ [Error (''Error saving quote: '' @ msg)]
      | Table rows \<Rightarrow>
          if [r \<leftarrow> rows. cell_eq (quote_cell r) quote \<and> cell_eq (author_cell r) author] \<noteq> []
          then \<not> ok \<and> written' = written \<and>
               shown = snd (load_saved_quotes d written) @
                 [Warning ''This quote is already saved!'']
          else
            (case to_csv_error d written
                    (rows @ [\<lparr>quote_cell = Str quote, author_cell = Str author,
                               date_saved = Str now\<rparr>]) of
               Some msg \<Rightarrow>
                 \<not> ok \<and> written' = written \<and>
                 shown = snd (load_saved_quotes d written) @
                   [Error (''Error saving quote: '' @ msg)]
             | None \<Rightarrow>
                 ok \<and> shown = snd (load_saved_quotes d written) \<and>
                 written' = written @
                   [rows @ [\<lparr>quote_cell = Str quote, author_cell = Str author,
                              date_saved = Str now\<rparr>]]))"
  using assms
  by (auto simp: save_quote_def Let_def split: prod.splits frame.splits option.splits if_splits)

text \<open>
  Claim C9 as stated fails: on a store with no file that cannot be written,
  \<^verbatim>\<open>save_quote\<close> returns false although the pair was not saved before.
\<close>

theorem save_quote_false_without_duplicate:
  "save_quote read_only_disk ''2024-01-01 10:00:00'' [] ''Test quote'' ''Test Author'' =
     (False, [], [Error ''Error saving quote: Permission denied'']) \<and>
   load_saved_quotes read_only_disk [] = (Table [], [])"
  by (simp add: save_quote_def load_saved_quotes_def read_only_disk_def)

theorem save_quote_false_means_found_or_failure_witness:
  "save_quote read_only_disk ''2024-01-01 10:00:00'' [] ''Test quote'' ''Test Author'' =
     (False, [], [Error ''Error saving quote: Permission denied'']) \<and>
   to_csv_error read_only_disk []
     [\<lparr>quote_cell = Str ''Test quote'', author_cell = Str ''Test Author'',
       date_saved = Str ''2024-01-01 10:00:00''\<rparr>] = Some ''Permission denied''"
  using save_quote_false_means_found_or_failure
    [where d = read_only_disk and now = "''2024-01-01 10:00:00''" and written = "[]"
       and quote = "''Test quote''" and author = "''Test Author''" and ok = False
       and written' = "[]" and shown = "[Error ''Error saving quote: Permission denied'']"]
  by (simp add: save_quote_def load_saved_quotes_def read_only_disk_def)

end
